theory Spec2Isabelle
  imports Main "HOL-Library.Word" "HOL-Library.Sublist"
begin

section \<open>JavaScript strings\<close>

text \<open>
  A JavaScript string is a sequence of UTF-16 code units. String literals of the source are
  ASCII and are written \<open>js ''...''\<close>.
\<close>

type_synonym jschar = "16 word"
type_synonym jsstring = "jschar list"

definition js :: "string \<Rightarrow> jsstring" where
  "js s = map of_char s"

text \<open>
  \<open>String.prototype.startsWith\<close>, \<open>endsWith\<close> and \<open>includes\<close> compare code units;
  \<open>includes\<close> tries every start position from the left.
\<close>

definition startsWith :: "jsstring \<Rightarrow> jsstring \<Rightarrow> bool" where
  "startsWith s p \<longleftrightarrow> take (length p) s = p"

definition endsWith :: "jsstring \<Rightarrow> jsstring \<Rightarrow> bool" where
  "endsWith s p \<longleftrightarrow> length p \<le> length s \<and> drop (length s - length p) s = p"

fun includes_js :: "jsstring \<Rightarrow> jsstring \<Rightarrow> bool" where
  "includes_js [] p = (p = [])"
| "includes_js (c # cs) p = (startsWith (c # cs) p \<or> includes_js cs p)"

text \<open>
  \<open>s.slice(start, end)\<close>: a negative index counts from the end, both indices are clamped
  to the string, and an empty range gives the empty string.
\<close>

definition slice_js :: "jsstring \<Rightarrow> int \<Rightarrow> int \<Rightarrow> jsstring" where
  "slice_js s start end' =
     (let len = int (length s);
          from = (if start < 0 then max (len + start) 0 else min start len);
          to = (if end' < 0 then max (len + end') 0 else min end' len)
      in take (nat (to - from)) (drop (nat from) s))"

text \<open>
  The code units that \<open>String.prototype.trim\<close> strips: the WhiteSpace and LineTerminator
  productions of ECMAScript (TAB, LF, VT, FF, CR, SP, NBSP, the other space separators,
  LS, PS and the byte order mark).
\<close>

definition isWhiteSpace :: "jschar \<Rightarrow> bool" where
  "isWhiteSpace c \<longleftrightarrow>
     c \<in> {0x0009, 0x000A, 0x000B, 0x000C, 0x000D, 0x0020, 0x00A0, 0x1680,
          0x2000, 0x2001, 0x2002, 0x2003, 0x2004, 0x2005, 0x2006, 0x2007,
          0x2008, 0x2009, 0x200A, 0x2028, 0x2029, 0x202F, 0x205F, 0x3000, 0xFEFF}"

definition trimStart :: "jsstring \<Rightarrow> jsstring" where
  "trimStart s = dropWhile isWhiteSpace s"

definition trim :: "jsstring \<Rightarrow> jsstring" where
  "trim s = rev (dropWhile isWhiteSpace (rev (trimStart s)))"

section \<open>The service worker (background.js)\<close>

subsection \<open>Data\<close>

text \<open>
  An object whose properties hold strings, as an association list in insertion order; the
  capture payload \<open>data\<close> handed to \<open>sendToBackend\<close> is such an object.
\<close>

type_synonym object = "(string \<times> jsstring) list"

definition get_prop :: "object \<Rightarrow> string \<Rightarrow> jsstring option" where
  "get_prop obj k = map_of obj k"

datatype js_error = SyntaxError | TypeError | Error jsstring | StorageError

text \<open>
  The effects a handler performs, in the order it performs them. \<open>FetchPostIndex data\<close> is
  the call \<^verbatim>\<open>fetch(`${BACKEND_URL}/index`, {method: 'POST', headers: {'Content-Type':
  'application/json'}, body: JSON.stringify(data)})\<close>; the serialisation is the runtime's
  and the effect keeps the object that is serialised.
\<close>

datatype effect =
    StorageGet string
  | StorageSet string
  | SetTimeout nat
  | ExecuteScript nat
  | FetchPostIndex object

record tab =
  tab_id :: nat
  tab_url :: "jsstring option"

text \<open>
  The state the service worker works on: the two keys of \<open>chrome.storage.local\<close>
  (\<open>None\<close> is a key never written), the pending \<open>setTimeout\<close> callbacks of
  \<open>processPageVisit\<close> (each closure holds its \<open>tab\<close>; equal delays fire in the order
  they were set), and the effects performed so far, oldest first.
  Every handler runs to completion before the next one starts.
\<close>

record world =
  stored_blocklist :: "jsstring list option"
  stored_failedQueue :: "object list option"
  timers :: "tab list"
  trace :: "effect list"

definition perform :: "effect \<Rightarrow> world \<Rightarrow> world" where
  "perform e w = w\<lparr>trace := trace w @ [e]\<rparr>"

definition BLOCKLIST_KEY :: string where
  "BLOCKLIST_KEY = ''blocklist''"

subsection \<open>The blocklist\<close>

text \<open>
  \<open>new RegExp(source)\<close> is the runtime's: a regular-expression engine is a parameter
  \<open>RegExp\<close> that gives \<open>None\<close> where the constructor throws a SyntaxError and otherwise
  the predicate \<open>regex.test\<close> (the regex has no flags, so \<open>test\<close> keeps no state).
\<close>

type_synonym regexp_engine = "jsstring \<Rightarrow> (jsstring \<Rightarrow> bool) option"

definition loadBlocklist :: "world \<Rightarrow> jsstring list \<times> world" where
  "loadBlocklist w =
     (let w1 = perform (StorageGet BLOCKLIST_KEY) w
      in (case stored_blocklist w of None \<Rightarrow> [] | Some blocklist \<Rightarrow> blocklist, w1))"

text \<open>The body of the \<open>try\<close> block of the callback given to \<open>blocklist.some\<close>.\<close>

definition pattern_try :: "regexp_engine \<Rightarrow> jsstring \<Rightarrow> jsstring \<Rightarrow> js_error + bool" where
  "pattern_try RegExp url pattern =
     (if startsWith pattern (js ''/'') \<and> endsWith pattern (js ''/'') then
        (case RegExp (slice_js pattern 1 (- 1)) of
           None \<Rightarrow> Inl SyntaxError
         | Some regex \<Rightarrow> Inr (regex url))
      else Inr (includes_js url pattern))"

text \<open>The callback: the \<open>try\<close> block with its \<open>catch\<close>.\<close>

definition pattern_callback :: "regexp_engine \<Rightarrow> jsstring \<Rightarrow> jsstring \<Rightarrow> js_error + bool" where
  "pattern_callback RegExp url pattern =
     (case pattern_try RegExp url pattern of
        Inl e \<Rightarrow> Inr (includes_js url pattern)
      | Inr b \<Rightarrow> Inr b)"

text \<open>
  \<open>Array.prototype.some\<close>: left to right, stops at the first element the callback accepts,
  and an exception of the callback ends the call.
\<close>

fun some :: "('a \<Rightarrow> js_error + bool) \<Rightarrow> 'a list \<Rightarrow> js_error + bool" where
  "some f [] = Inr False"
| "some f (x # xs) =
     (case f x of
        Inl e \<Rightarrow> Inl e
      | Inr b \<Rightarrow> if b then Inr True else some f xs)"

definition isBlocklisted :: "regexp_engine \<Rightarrow> jsstring \<Rightarrow> world \<Rightarrow> (js_error + bool) \<times> world" where
  "isBlocklisted RegExp url w =
     (let (blocklist, w1) = loadBlocklist w
      in (some (pattern_callback RegExp url) blocklist, w1))"

text \<open>
  A sample engine for concrete evaluations only; the theorems hold for every engine. On a
  source of ASCII letters and digits it is the JavaScript engine (such a regex matches the
  strings that contain the source). It knows no other sources and rejects them all; the
  one used below is \<open>(\<close>, which JavaScript rejects too.
\<close>

definition isAlnum :: "jschar \<Rightarrow> bool" where
  "isAlnum c \<longleftrightarrow> (48 \<le> c \<and> c \<le> 57) \<or> (65 \<le> c \<and> c \<le> 90) \<or> (97 \<le> c \<and> c \<le> 122)"

definition literal_RegExp :: regexp_engine where
  "literal_RegExp source =
     (if list_all isAlnum source then Some (\<lambda>s. includes_js s source) else None)"

subsection \<open>Content extraction\<close>

text \<open>
  What the injected \<open>extractTextContent\<close> reads from the page: \<open>mainContent\<close> is the
  element chosen by \<^verbatim>\<open>document.querySelector('main, article, [role="main"]') ||
  document.body\<close> once the script, style and noscript elements are removed (\<open>None\<close>: the
  document has neither), \<open>innerText\<close> is \<open>None\<close> where the property is undefined,
  \<open>meta_description\<close> is \<open>None\<close> where the page has no such meta element, and
  \<open>Date_toISOString\<close> is the value of \<^verbatim>\<open>new Date().toISOString()\<close> when the script runs.
\<close>

record element =
  innerText :: "jsstring option"
  textContent :: "jsstring option"

record document =
  mainContent :: "element option"
  document_title :: jsstring
  meta_description :: "jsstring option"
  location_href :: jsstring
  Date_toISOString :: jsstring

record content =
  content_text :: jsstring
  content_title :: jsstring
  content_description :: jsstring
  content_url :: jsstring
  content_timestamp :: jsstring

text \<open>\<open>a || b\<close> for a string-or-undefined \<open>a\<close>: the empty string is falsy.\<close>

definition or_else :: "jsstring option \<Rightarrow> jsstring \<Rightarrow> jsstring" where
  "or_else a b = (case a of None \<Rightarrow> b | Some s \<Rightarrow> if s = [] then b else s)"

definition extractTextContent :: "document \<Rightarrow> js_error + content" where
  "extractTextContent d =
     (case mainContent d of
        None \<Rightarrow> Inl TypeError
      | Some el \<Rightarrow>
          (let text = or_else (innerText el) (or_else (textContent el) []);
               title = or_else (Some (document_title d)) [];
               description = or_else (meta_description d) []
           in Inr \<lparr>content_text = trim text,
                   content_title = trim title,
                   content_description = trim description,
                   content_url = location_href d,
                   content_timestamp = Date_toISOString d\<rparr>))"

text \<open>
  \<open>chrome.scripting.executeScript\<close> either fails (no such tab, a page the extension may
  not script) or runs the function in the tab's document.
\<close>

datatype injection = InjectionFails | Injected document

definition extractPageContent :: "nat \<Rightarrow> injection \<Rightarrow> world \<Rightarrow> content option \<times> world" where
  "extractPageContent tabId page w =
     (let w1 = perform (ExecuteScript tabId) w
      in (case page of
            InjectionFails \<Rightarrow> None
          | Injected d \<Rightarrow>
              (case extractTextContent d of Inl e \<Rightarrow> None | Inr result \<Rightarrow> Some result),
          w1))"

subsection \<open>The content script (content.js)\<close>

text \<open>
  The content script has an \<open>extractTextContent\<close> of its own, which answers an
  \<open>extractContent\<close> message; the service worker never sends that message and injects its
  own function instead. Here \<open>mainContent\<close> is the element the content script chooses
  (it also tries \<^verbatim>\<open>.content, #content\<close> before the body, and removes iframes as well),
  \<open>meta_keywords\<close> is the content of the keywords meta element, and an exception gives
  \<open>null\<close>, here \<open>None\<close>.
\<close>

record script_content =
  script_text :: jsstring
  script_title :: jsstring
  script_description :: jsstring
  script_keywords :: jsstring
  script_url :: jsstring
  script_timestamp :: jsstring

definition content_script_extractTextContent ::
  "document \<Rightarrow> jsstring option \<Rightarrow> script_content option" where
  "content_script_extractTextContent d meta_keywords =
     (case mainContent d of
        None \<Rightarrow> None
      | Some el \<Rightarrow>
          (let text = or_else (innerText el) (or_else (textContent el) []);
               title = or_else (Some (document_title d)) [];
               description = or_else (meta_description d) [];
               keywords = or_else meta_keywords []
           in Some \<lparr>script_text = trim text,
                    script_title = trim title,
                    script_description = trim description,
                    script_keywords = trim keywords,
                    script_url = location_href d,
                    script_timestamp = Date_toISOString d\<rparr>))"

subsection \<open>Sending\<close>

text \<open>
  The backend's answer to one \<open>fetch\<close>: the request fails, or a response arrives;
  \<open>response_json\<close> is \<open>None\<close> where \<open>response.json()\<close> rejects and otherwise the parsed
  body's \<open>chunks_indexed\<close>. \<open>storage_works\<close> says whether the \<open>chrome.storage.local\<close>
  calls of the \<open>catch\<close> block of \<open>sendToBackend\<close> succeed (a write fails when the quota
  is used up).
\<close>

record response =
  response_ok :: bool
  response_statusText :: jsstring
  response_json :: "int option"

datatype fetch_result = NetworkError | Responds response

record send_env =
  fetch_answer :: fetch_result
  storage_works :: bool

text \<open>The \<open>try\<close> block of \<open>sendToBackend\<close> after the \<open>fetch\<close> call.\<close>

definition send_try :: "fetch_result \<Rightarrow> js_error + int" where
  "send_try answer =
     (case answer of
        NetworkError \<Rightarrow> Inl TypeError
      | Responds r \<Rightarrow>
          if \<not> response_ok r then Inl (Error (js ''Backend error: '' @ response_statusText r))
          else (case response_json r of None \<Rightarrow> Inl SyntaxError | Some result \<Rightarrow> Inr result))"

text \<open>The \<open>catch\<close> block: the payload is appended to the stored queue.\<close>

definition send_catch :: "bool \<Rightarrow> object \<Rightarrow> world \<Rightarrow> (js_error + int option) \<times> world" where
  "send_catch works data w =
     (let w1 = perform (StorageGet ''failedQueue'') w
      in if \<not> works then (Inl StorageError, w1)
         else
           (let failedQueue = (case stored_failedQueue w1 of None \<Rightarrow> [] | Some q \<Rightarrow> q);
                w2 = perform (StorageSet ''failedQueue'')
                       (w1\<lparr>stored_failedQueue := Some (failedQueue @ [data])\<rparr>)
            in (Inr None, w2)))"

definition sendToBackend :: "send_env \<Rightarrow> object \<Rightarrow> world \<Rightarrow> (js_error + int option) \<times> world" where
  "sendToBackend env data w =
     (let w1 = perform (FetchPostIndex data) w
      in (case send_try (fetch_answer env) of
            Inr result \<Rightarrow> (Inr (Some result), w1)
          | Inl error \<Rightarrow> send_catch (storage_works env) data w1))"

subsection \<open>Page visits\<close>

definition processPageVisit :: "regexp_engine \<Rightarrow> tab \<Rightarrow> world \<Rightarrow> world" where
  "processPageVisit RegExp tab w =
     (case tab_url tab of
        None \<Rightarrow> w
      | Some url \<Rightarrow>
          if url = [] \<or> startsWith url (js ''chrome://'')
               \<or> startsWith url (js ''chrome-extension://'')
          then w
          else
            (let (isBlocked, w1) = isBlocklisted RegExp url w
             in (case isBlocked of
                   Inl e \<Rightarrow> w1
                 | Inr b \<Rightarrow>
                     if b then w1
                     else perform (SetTimeout 2000) (w1\<lparr>timers := timers w1 @ [tab]\<rparr>))))"

text \<open>
  The object literal handed to \<open>sendToBackend\<close>; a property whose value is undefined is
  left out by \<open>JSON.stringify\<close>.
\<close>

definition payload :: "tab \<Rightarrow> content \<Rightarrow> object" where
  "payload tab c =
     (case tab_url tab of None \<Rightarrow> [] | Some url \<Rightarrow> [(''url'', url)]) @
     [(''title'', content_title c),
      (''description'', content_description c),
      (''text'', content_text c),
      (''timestamp'', content_timestamp c)]"

text \<open>The callback \<open>processPageVisit\<close> sets to run two seconds later.\<close>

definition timer_callback :: "tab \<Rightarrow> injection \<Rightarrow> send_env \<Rightarrow> world \<Rightarrow> world" where
  "timer_callback tab page env w =
     (let (c, w1) = extractPageContent (tab_id tab) page w
      in (case c of
            None \<Rightarrow> w1
          | Some c \<Rightarrow>
              if content_text c \<noteq> [] then snd (sendToBackend env (payload tab c) w1)
              else w1))"

subsection \<open>Retrying\<close>

text \<open>
  The \<open>for\<close> loop of \<open>retryFailedRequests\<close>. The items of \<open>queue\<close> are distinct objects
  and \<open>successful.includes(item)\<close> compares references, so an item is known by its position
  in \<open>queue\<close>. \<open>envs i\<close> is the environment's answer to the send of item \<open>i\<close>.
\<close>

fun retry_loop ::
  "(nat \<Rightarrow> send_env) \<Rightarrow> (nat \<times> object) list \<Rightarrow> nat list \<Rightarrow> world \<Rightarrow> nat list \<times> world" where
  "retry_loop envs [] successful w = (successful, w)"
| "retry_loop envs ((i, data) # rest) successful w =
     (let (r, w1) = sendToBackend (envs i) data w
      in (case r of
            Inr result \<Rightarrow> retry_loop envs rest (successful @ [i]) w1
          | Inl error \<Rightarrow> retry_loop envs rest successful w1))"

definition retryFailedRequests :: "(nat \<Rightarrow> send_env) \<Rightarrow> world \<Rightarrow> world" where
  "retryFailedRequests envs w =
     (let w1 = perform (StorageGet ''failedQueue'') w;
          queue = (case stored_failedQueue w of None \<Rightarrow> [] | Some q \<Rightarrow> q);
          items = zip [0..<length queue] queue
      in if length queue > 0 then
           (let (successful, w2) = retry_loop envs items [] w1;
                remaining = map snd (filter (\<lambda>(i, item). i \<notin> set successful) items)
            in perform (StorageSet ''failedQueue'') (w2\<lparr>stored_failedQueue := Some remaining\<rparr>))
         else w1)"

subsection \<open>Changing the blocklist\<close>

text \<open>\<open>s.split('\n')\<close>.\<close>

fun split_lines :: "jsstring \<Rightarrow> jsstring list" where
  "split_lines [] = [[]]"
| "split_lines (c # cs) =
     (if c = 0x000A then [] # split_lines cs
      else (case split_lines cs of [] \<Rightarrow> [[c]] | l # ls \<Rightarrow> (c # l) # ls))"

text \<open>
  \<open>saveBlocklist\<close> of the popup, as far as the stored blocklist goes (its status line is
  not part of this state), and the \<open>onInstalled\<close> listener.
\<close>

definition saveBlocklist :: "jsstring \<Rightarrow> world \<Rightarrow> world" where
  "saveBlocklist textarea_value w =
     (let lines = filter (\<lambda>line. length line > 0) (map trim (split_lines textarea_value))
      in perform (StorageSet BLOCKLIST_KEY) (w\<lparr>stored_blocklist := Some lines\<rparr>))"

definition onInstalled :: "world \<Rightarrow> world" where
  "onInstalled w =
     (let w1 = perform (StorageGet BLOCKLIST_KEY) w
      in (case stored_blocklist w1 of
            Some blocklist \<Rightarrow> w1
          | None \<Rightarrow>
              (let defaultBlocklist =
                     [js ''chrome://'', js ''chrome-extension://'', js ''about:'', js ''file://'']
               in perform (StorageSet BLOCKLIST_KEY)
                    (w1\<lparr>stored_blocklist := Some defaultBlocklist\<rparr>))))"

subsection \<open>Runs\<close>

text \<open>
  What can happen to the service worker: a tab listener calls \<open>processPageVisit\<close>, the
  oldest pending timeout fires (with what the page and the backend then answer), the
  five-minute interval calls \<open>retryFailedRequests\<close>, the user saves a blocklist in the
  popup, the extension is installed.
\<close>

datatype event =
    PageVisit tab
  | TimerFires injection send_env
  | RetryInterval "nat \<Rightarrow> send_env"
  | BlocklistSaved jsstring
  | ExtensionInstalled

fun step :: "regexp_engine \<Rightarrow> event \<Rightarrow> world \<Rightarrow> world" where
  "step RegExp (PageVisit tab) w = processPageVisit RegExp tab w"
| "step RegExp (TimerFires page env) w =
     (case timers w of
        [] \<Rightarrow> w
      | tab # rest \<Rightarrow> timer_callback tab page env (w\<lparr>timers := rest\<rparr>))"
| "step RegExp (RetryInterval envs) w = retryFailedRequests envs w"
| "step RegExp (BlocklistSaved textarea_value) w = saveBlocklist textarea_value w"
| "step RegExp ExtensionInstalled w = onInstalled w"

fun run :: "regexp_engine \<Rightarrow> event list \<Rightarrow> world \<Rightarrow> world" where
  "run RegExp [] w = w"
| "run RegExp (e # es) w = run RegExp es (step RegExp e w)"

definition fresh :: world where
  "fresh = \<lparr>stored_blocklist = None, stored_failedQueue = None, timers = [], trace = []\<rparr>"

text \<open>The payloads transmitted to the indexing endpoint, oldest first.\<close>

fun transmitted :: "effect list \<Rightarrow> object list" where
  "transmitted [] = []"
| "transmitted (FetchPostIndex data # es) = data # transmitted es"
| "transmitted (e # es) = transmitted es"

section \<open>The popup (popup.js): search\<close>

subsection \<open>Numbers\<close>

text \<open>
  \<open>parseInt(string)\<close> with no radix: leading white space is skipped, then an optional
  sign, then an optional \<open>0x\<close> or \<open>0X\<close> (radix 16, else 10), then the longest run of
  digits of the radix; no digit gives NaN, here \<open>None\<close>. The value is kept as an integer
  (JavaScript rounds it to a double beyond 2 to the power 53).
\<close>

definition digit :: "jschar \<Rightarrow> nat" where
  "digit c =
     (if 0x30 \<le> c \<and> c \<le> 0x39 then unat c - 0x30
      else if 0x61 \<le> c \<and> c \<le> 0x7A then unat c - 0x61 + 10
      else if 0x41 \<le> c \<and> c \<le> 0x5A then unat c - 0x41 + 10
      else 36)"

definition parseInt :: "jsstring \<Rightarrow> int option" where
  "parseInt string =
     (let S = trimStart string;
          sign = (case S of c # cs \<Rightarrow> if c = 0x2D then - 1 else 1 | [] \<Rightarrow> (1::int));
          S1 = (case S of c # cs \<Rightarrow> if c = 0x2B \<or> c = 0x2D then cs else S | [] \<Rightarrow> S);
          hex = (take 2 S1 = js ''0x'' \<or> take 2 S1 = js ''0X'');
          R = (if hex then 16 else 10);
          S2 = (if hex then drop 2 S1 else S1);
          Z = takeWhile (\<lambda>c. digit c < R) S2
      in if Z = [] then None
         else Some (sign * int (foldl (\<lambda>n c. n * R + digit c) 0 Z)))"

text \<open>A non-negative integer in a template literal: its decimal digits.\<close>

fun decimal :: "nat \<Rightarrow> jsstring" where
  "decimal n =
     (if n < 10 then [0x30 + of_nat n]
      else decimal (n div 10) @ [0x30 + of_nat (n mod 10)])"

declare decimal.simps [simp del]

definition number_toString :: "int \<Rightarrow> jsstring" where
  "number_toString n = (if n < 0 then js ''-'' @ decimal (nat (- n)) else decimal (nat n))"

text \<open>\<open>Array.prototype.join\<close>.\<close>

fun join :: "jsstring \<Rightarrow> jsstring list \<Rightarrow> jsstring" where
  "join sep [] = []"
| "join sep [x] = x"
| "join sep (x # y # ys) = x @ sep @ join sep (y # ys)"

subsection \<open>Search results\<close>

text \<open>
  One element of the \<open>results\<close> array of a search response; \<open>None\<close> is a property the
  response leaves out. Distances are numbers of a type \<open>'d\<close>, formatted by the runtime's
  \<open>toFixed\<close>; a property that is present has the type the backend gives it.
\<close>

record 'd search_result =
  result_title :: "jsstring option"
  result_url :: jsstring
  result_chunk_text :: "jsstring option"
  result_distance :: "'d option"
  result_timestamp :: "jsstring option"
  result_chunk_index :: "int option"
  result_total_chunks :: "int option"

text \<open>
  The \<open>div\<close> built for one result: the text of its title, url, snippet (if any) and meta
  lines, and the URL its click handler opens.
\<close>

record result_item =
  title_textContent :: jsstring
  url_textContent :: jsstring
  snippet_textContent :: "jsstring option"
  meta_textContent :: jsstring
  click_opens :: jsstring

text \<open>
  \<open>toFixed4 d\<close> is \<open>d.toFixed(4)\<close> and \<open>toLocaleDateString t\<close> is
  \<^verbatim>\<open>new Date(t).toLocaleDateString()\<close>, both the runtime's.
\<close>

definition createResultElement ::
  "('d \<Rightarrow> jsstring) \<Rightarrow> (jsstring \<Rightarrow> jsstring) \<Rightarrow> 'd search_result \<Rightarrow> nat \<Rightarrow> result_item" where
  "createResultElement toFixed4 toLocaleDateString result rank =
     (let snippet =
            (case result_chunk_text result of
               None \<Rightarrow> None
             | Some chunk_text \<Rightarrow>
                 if chunk_text = [] then None
                 else Some (if length chunk_text > 150 then take 150 chunk_text @ js ''...''
                            else chunk_text));
          metaText =
            (case result_distance result of
               None \<Rightarrow> []
             | Some distance \<Rightarrow> [js ''Distance: '' @ toFixed4 distance]) @
            (case result_timestamp result of
               None \<Rightarrow> []
             | Some timestamp \<Rightarrow>
                 if timestamp = [] then []
                 else [js ''Visited: '' @ toLocaleDateString timestamp]) @
            (case (result_chunk_index result, result_total_chunks result) of
               (Some chunk_index, Some total_chunks) \<Rightarrow>
                 [js ''Chunk '' @ number_toString (chunk_index + 1) @ js ''/''
                    @ number_toString total_chunks]
             | _ \<Rightarrow> [])
      in \<lparr>title_textContent = or_else (result_title result) (js ''Untitled''),
          url_textContent = result_url result,
          snippet_textContent = snippet,
          meta_textContent = join [0x20, 0x2022, 0x20] metaText,
          click_opens = result_url result\<rparr>)"

subsection \<open>The popup's state\<close>

datatype node = LoadingDiv | NoResultsDiv | ResultItem result_item

text \<open>
  \<open>encodeURIComponent\<close> throws a URIError where its argument holds a lone surrogate: a
  trailing surrogate that no leading surrogate precedes, or a leading surrogate that no
  trailing surrogate follows. \<open>isWellFormed\<close> reads the string as \<open>encodeURIComponent\<close>
  does, one code point at a time from the left.
\<close>

definition isLeadingSurrogate :: "jschar \<Rightarrow> bool" where
  "isLeadingSurrogate c \<longleftrightarrow> 0xD800 \<le> c \<and> c \<le> 0xDBFF"

definition isTrailingSurrogate :: "jschar \<Rightarrow> bool" where
  "isTrailingSurrogate c \<longleftrightarrow> 0xDC00 \<le> c \<and> c \<le> 0xDFFF"

fun isWellFormed :: "jsstring \<Rightarrow> bool" where
  "isWellFormed [] = True"
| "isWellFormed [c] = (\<not> isLeadingSurrogate c \<and> \<not> isTrailingSurrogate c)"
| "isWellFormed (c # d # cs) =
     (if isLeadingSurrogate c then isTrailingSurrogate d \<and> isWellFormed cs
      else \<not> isTrailingSurrogate c \<and> isWellFormed (d # cs))"

text \<open>
  \<open>FetchGetSearch query topK\<close> is the call
  \<^verbatim>\<open>fetch(`${BACKEND_URL}/search?query=${encodeURIComponent(query)}&top_k=${topK}`)\<close>,
  made once \<open>encodeURIComponent(query)\<close> has returned; the encoding itself is the
  runtime's and the effect keeps the string that is encoded.
\<close>

datatype popup_effect = FetchGetSearch jsstring int | SetTimeoutClearStatus nat

record popup =
  searchQuery_value :: jsstring
  topK_value :: jsstring
  searchBtn_disabled :: bool
  searchResults :: "node list"
  searchStatus_textContent :: jsstring
  searchStatus_className :: jsstring
  effects :: "popup_effect list"

text \<open>
  The backend's answer to the search request: \<open>fetch\<close> rejects (with that message), the
  response is not ok (with that status text), \<open>response.json()\<close> rejects (with that
  message), or the body is parsed; \<open>Data None\<close> is a body with no \<open>results\<close>.
\<close>

datatype 'd search_answer =
    FetchRejects jsstring
  | NotOk jsstring
  | JsonRejects jsstring
  | Data "'d search_result list option"

text \<open>\<open>results.forEach\<close> with its \<open>appendChild\<close>.\<close>

fun forEach_append ::
  "('d search_result \<Rightarrow> nat \<Rightarrow> result_item) \<Rightarrow> 'd search_result list \<Rightarrow> nat \<Rightarrow> node list
     \<Rightarrow> node list" where
  "forEach_append create [] index children = children"
| "forEach_append create (result # rest) index children =
     forEach_append create rest (index + 1)
       (children @ [ResultItem (create result (index + 1))])"

text \<open>
  The \<open>try\<close> block of \<open>performSearch\<close> after the \<open>fetch\<close> call; \<open>Inl\<close> is the thrown
  error's message.
\<close>

definition search_try ::
  "('d search_result \<Rightarrow> nat \<Rightarrow> result_item) \<Rightarrow> 'd search_answer \<Rightarrow> popup \<Rightarrow> jsstring + popup" where
  "search_try create answer p =
     (case answer of
        FetchRejects message \<Rightarrow> Inl message
      | NotOk statusText \<Rightarrow> Inl (js ''Search failed: '' @ statusText)
      | JsonRejects message \<Rightarrow> Inl message
      | Data data_results \<Rightarrow>
          (let results = (case data_results of None \<Rightarrow> [] | Some rs \<Rightarrow> rs)
           in if length results = 0 then
                Inr (p\<lparr>searchResults := [NoResultsDiv],
                       searchStatus_textContent := js ''No matching pages found'',
                       searchStatus_className := js ''status info''\<rparr>)
              else
                Inr (p\<lparr>searchResults := forEach_append create results 0 [],
                       searchStatus_textContent :=
                         js ''Found '' @ decimal (length results) @ js '' result(s)'',
                       searchStatus_className := js ''status success''\<rparr>)))"

text \<open>The \<open>catch\<close> block of \<open>performSearch\<close>.\<close>

definition search_catch :: "jsstring \<Rightarrow> popup \<Rightarrow> popup" where
  "search_catch message p =
     p\<lparr>searchResults := [],
       searchStatus_textContent := js ''Search failed: '' @ message,
       searchStatus_className := js ''status error''\<rparr>"

text \<open>
  The \<open>try\<close> block starts by building the URL: where \<open>encodeURIComponent(query)\<close> throws
  (V8's message is \<open>URI malformed\<close>), the \<open>catch\<close> block runs and \<open>fetch\<close> is never called.
\<close>

definition performSearch ::
  "('d \<Rightarrow> jsstring) \<Rightarrow> (jsstring \<Rightarrow> jsstring) \<Rightarrow> 'd search_answer \<Rightarrow> popup \<Rightarrow> popup" where
  "performSearch toFixed4 toLocaleDateString answer p =
     (let query = trim (searchQuery_value p);
          topK = (case parseInt (topK_value p) of
                    None \<Rightarrow> 5
                  | Some n \<Rightarrow> if n = 0 then 5 else n)
      in if query = [] then
           p\<lparr>searchStatus_textContent := js ''Please enter a search query'',
             searchStatus_className := js ''status error'',
             effects := effects p @ [SetTimeoutClearStatus 3000]\<rparr>
         else
           (let p1 = p\<lparr>searchBtn_disabled := True,
                       searchResults := [LoadingDiv],
                       searchStatus_textContent := []\<rparr>;
                p2 = (if \<not> isWellFormed query then search_catch (js ''URI malformed'') p1
                      else
                        (let p1' = p1\<lparr>effects := effects p1 @ [FetchGetSearch query topK]\<rparr>
                         in (case search_try (createResultElement toFixed4 toLocaleDateString)
                                    answer p1' of
                               Inr p' \<Rightarrow> p'
                             | Inl message \<Rightarrow> search_catch message p1')))
            in p2\<lparr>searchBtn_disabled := False\<rparr>))"

text \<open>The search requests among the popup's effects.\<close>

fun searches :: "popup_effect list \<Rightarrow> (jsstring \<times> int) list" where
  "searches [] = []"
| "searches (FetchGetSearch query topK # es) = (query, topK) # searches es"
| "searches (e # es) = searches es"

section \<open>Notions used in the statements\<close>

text \<open>A string with no white space at either end.\<close>

definition trimmed :: "jsstring \<Rightarrow> bool" where
  "trimmed s \<longleftrightarrow> s = [] \<or> (\<not> isWhiteSpace (hd s) \<and> \<not> isWhiteSpace (last s))"

text \<open>The stored queue as \<open>result.failedQueue || []\<close> reads it.\<close>

definition queue_of :: "world \<Rightarrow> object list" where
  "queue_of w = (case stored_failedQueue w of None \<Rightarrow> [] | Some q \<Rightarrow> q)"

text \<open>
  A property \<open>T\<close> of every tab with a pending timeout and a property \<open>Q\<close> of every payload
  that is queued or was transmitted.
\<close>

definition upholds :: "(tab \<Rightarrow> bool) \<Rightarrow> (object \<Rightarrow> bool) \<Rightarrow> world \<Rightarrow> bool" where
  "upholds T Q w \<longleftrightarrow>
     (\<forall>t \<in> set (timers w). T t) \<and> (\<forall>d \<in> set (queue_of w). Q d)
     \<and> (\<forall>d \<in> set (transmitted (trace w)). Q d)"

text \<open>
  A payload built by the timeout callback: from a tab with a URL and from what
  \<open>extractTextContent\<close> returned for some document, with text.
\<close>

definition captured :: "object \<Rightarrow> bool" where
  "captured data \<longleftrightarrow>
     (\<exists>tab url d c. tab_url tab = Some url \<and> extractTextContent d = Inr c
        \<and> content_text c \<noteq> [] \<and> data = payload tab c)"

text \<open>
  The run \<open>es\<close> from \<open>w0\<close> holds a visit of \<open>url\<close> that the blocklist stored at the moment
  of that visit let through.
\<close>

definition admitted :: "regexp_engine \<Rightarrow> world \<Rightarrow> event list \<Rightarrow> jsstring \<Rightarrow> bool" where
  "admitted RegExp w0 es url \<longleftrightarrow>
     (\<exists>i tab. i < length es \<and> es ! i = PageVisit tab \<and> tab_url tab = Some url
        \<and> fst (isBlocklisted RegExp url (run RegExp (take i es) w0)) = Inr False)"

section \<open>The core's check of the text\<close>




section \<open>Sample inputs\<close>

definition example_tab :: tab where
  "example_tab = \<lparr>tab_id = 7, tab_url = Some (js ''http://a.example/'')\<rparr>"

definition example_document :: document where
  "example_document =
     \<lparr>mainContent = Some \<lparr>innerText = Some (js ''  hello world ''), textContent = None\<rparr>,
      document_title = js ''T '',
      meta_description = None,
      location_href = js ''http://a.example/'',
      Date_toISOString = js ''2024-01-01T00:00:00.000Z''\<rparr>"




definition example_payload :: object where
  "example_payload =
     [(''url'', js ''http://a.example/''),
      (''title'', js ''T''),
      (''description'', js ''''),
      (''text'', js ''hello world''),
      (''timestamp'', js ''2024-01-01T00:00:00.000Z'')]"

definition backend_down :: send_env where
  "backend_down = \<lparr>fetch_answer = NetworkError, storage_works = True\<rparr>"

definition backend_up :: send_env where
  "backend_up =
     \<lparr>fetch_answer = Responds \<lparr>response_ok = True, response_statusText = js ''OK'',
                                 response_json = Some 1\<rparr>,
      storage_works = True\<rparr>"

definition every_time :: "send_env \<Rightarrow> nat \<Rightarrow> send_env" where
  "every_time env i = env"

definition popup0 :: popup where
  "popup0 = \<lparr>searchQuery_value = [], topK_value = [], searchBtn_disabled = False,
     searchResults = [], searchStatus_textContent = [], searchStatus_className = [],
     effects = []\<rparr>"

definition result1 :: "nat search_result" where
  "result1 = \<lparr>result_title = Some (js ''A''), result_url = js ''http://a.example/'',
     result_chunk_text = Some (js ''aaa''), result_distance = Some 3, result_timestamp = None,
     result_chunk_index = Some 0, result_total_chunks = Some 2\<rparr>"

definition result2 :: "nat search_result" where
  "result2 = \<lparr>result_title = None, result_url = js ''http://b.example/'',
     result_chunk_text = None, result_distance = Some 1, result_timestamp = None,
     result_chunk_index = None, result_total_chunks = None\<rparr>"

section \<open>Properties of the blocklist\<close>

lemma startsWith_prefix: "startsWith s p \<longleftrightarrow> prefix p s"
  unfolding startsWith_def
  by (metis append_eq_conv_conj prefix_def take_is_prefix)

lemma includes_sublist: "includes_js url pattern \<longleftrightarrow> sublist pattern url"
proof (induction url)
  case Nil
  show ?case by auto
next
  case (Cons c cs)
  show ?case
    by (simp add: Cons.IH startsWith_prefix sublist_Cons_right)
qed

lemma some_callback:
  "\<forall>x \<in> set xs. \<exists>b. f x = Inr b \<Longrightarrow> some f xs = Inr (\<exists>x \<in> set xs. f x = Inr True)"
proof (induction xs)
  case Nil
  show ?case by simp
next
  case (Cons x xs)
  from Cons.prems obtain b where b: "f x = Inr b" by auto
  from Cons.prems have "some f xs = Inr (\<exists>x \<in> set xs. f x = Inr True)"
    by (intro Cons.IH) simp
  with b show ?case by (cases b) auto
qed

lemma pattern_callback_returns:
  "\<exists>b. pattern_callback RegExp url pattern = Inr b"
  by (simp add: pattern_callback_def split: sum.split)

lemma slice_interior: "slice_js (js ''/'' @ interior @ js ''/'') 1 (- 1) = interior"
  by (simp add: slice_js_def Let_def js_def)

lemma fst_isBlocklisted:
  "fst (isBlocklisted RegExp url w) =
     Inr (\<exists>pattern \<in> set (fst (loadBlocklist w)). pattern_callback RegExp url pattern = Inr True)"
  by (simp add: isBlocklisted_def split_beta some_callback pattern_callback_returns)

lemmas blocklist_eval =
  js_def startsWith_def endsWith_def slice_js_def Let_def literal_RegExp_def isAlnum_def
  pattern_callback_def pattern_try_def isBlocklisted_def loadBlocklist_def perform_def fresh_def

text \<open>
  C2. Blocklist matching is substring-or-regex: a pattern that both starts and ends with
  \<open>/\<close> is matched by testing the regular expression formed from the characters between
  the delimiters (what \<open>slice(1, -1)\<close> leaves) against the URL, every other pattern
  matches if and only if it occurs in the URL as a contiguous substring, and
  \<open>isBlocklisted\<close> returns true if and only if some pattern of the stored list matches.
\<close>

theorem isBlocklisted_substring_or_regex:
  "(startsWith pattern (js ''/'') \<and> endsWith pattern (js ''/'') \<longrightarrow>
      RegExp (slice_js pattern 1 (- 1)) = Some regex \<longrightarrow>
      pattern_callback RegExp url pattern = Inr (regex url))
   \<and> slice_js (js ''/'' @ interior @ js ''/'') 1 (- 1) = interior
   \<and> (\<not> (startsWith pattern (js ''/'') \<and> endsWith pattern (js ''/'')) \<longrightarrow>
      pattern_callback RegExp url pattern = Inr (sublist pattern url))
   \<and> fst (isBlocklisted RegExp url w) =
       Inr (\<exists>pattern \<in> set (fst (loadBlocklist w)). pattern_callback RegExp url pattern = Inr True)"
proof (intro conjI impI)
  assume "startsWith pattern (js ''/'') \<and> endsWith pattern (js ''/'')"
    and "RegExp (slice_js pattern 1 (- 1)) = Some regex"
  then show "pattern_callback RegExp url pattern = Inr (regex url)"
    by (simp add: pattern_callback_def pattern_try_def)
next
  show "slice_js (js ''/'' @ interior @ js ''/'') 1 (- 1) = interior"
    by (rule slice_interior)
next
  assume "\<not> (startsWith pattern (js ''/'') \<and> endsWith pattern (js ''/''))"
  then show "pattern_callback RegExp url pattern = Inr (sublist pattern url)"
    by (auto simp add: pattern_callback_def pattern_try_def includes_sublist)
next
  show "fst (isBlocklisted RegExp url w) =
       Inr (\<exists>pattern \<in> set (fst (loadBlocklist w)). pattern_callback RegExp url pattern = Inr True)"
    by (rule fst_isBlocklisted)
qed

theorem isBlocklisted_substring_or_regex_witness:
  "pattern_callback literal_RegExp (js ''http://abc.example/'') (js ''/abc/'') = Inr True
   \<and> pattern_callback literal_RegExp (js ''http://abc.example/'') (js ''xyz'') = Inr False
   \<and> fst (isBlocklisted literal_RegExp (js ''http://abc.example/'')
            (fresh\<lparr>stored_blocklist := Some [js ''xyz'', js ''/abc/'']\<rparr>)) = Inr True"
  using isBlocklisted_substring_or_regex
          [of "js ''/abc/''" literal_RegExp "\<lambda>s. includes_js s (js ''abc'')"
              "js ''http://abc.example/''" "[]"
              "fresh\<lparr>stored_blocklist := Some [js ''xyz'', js ''/abc/'']\<rparr>"]
        isBlocklisted_substring_or_regex
          [of "js ''xyz''" literal_RegExp "\<lambda>s. True" "js ''http://abc.example/''" "[]" fresh]
  by (simp add: blocklist_eval flip: includes_sublist)

text \<open>
  C9. \<open>isBlocklisted\<close> is total: for every URL and every stored list of patterns it
  returns a boolean and no exception escapes, whatever the engine rejects; and a pattern in
  slashes whose interior the engine rejects is matched as a literal substring, slashes
  included.
\<close>

theorem isBlocklisted_total:
  "(\<exists>b. fst (isBlocklisted RegExp url w) = Inr b)
   \<and> (startsWith pattern (js ''/'') \<and> endsWith pattern (js ''/'') \<longrightarrow>
      RegExp (slice_js pattern 1 (- 1)) = None \<longrightarrow>
      pattern_callback RegExp url pattern = Inr (sublist pattern url))"
  by (simp add: fst_isBlocklisted pattern_callback_def pattern_try_def includes_sublist)

theorem isBlocklisted_total_witness:
  "pattern_callback literal_RegExp (js ''http://a.example/(/b'') (js ''/(/'') = Inr True
   \<and> pattern_callback literal_RegExp (js ''http://a.example/b'') (js ''/(/'') = Inr False"
  using isBlocklisted_total [of literal_RegExp "js ''http://a.example/(/b''" fresh "js ''/(/''"]
        isBlocklisted_total [of literal_RegExp "js ''http://a.example/b''" fresh "js ''/(/''"]
  by (simp add: blocklist_eval flip: includes_sublist)

section \<open>Strings\<close>

lemma trimmed_trim: "trimmed (trim s)"
proof -
  let ?t = "trimStart s"
  let ?r = "dropWhile isWhiteSpace (rev ?t)"
  have split: "?t = rev ?r @ rev (takeWhile isWhiteSpace (rev ?t))"
    by (metis rev_append rev_rev_ident takeWhile_dropWhile_id)
  show ?thesis
  proof (cases "?r = []")
    case True
    then show ?thesis by (simp add: trimmed_def trim_def)
  next
    case False
    then have "\<not> isWhiteSpace (hd ?r)" by (rule hd_dropWhile)
    then have last: "\<not> isWhiteSpace (last (rev ?r))" using False by (simp add: last_rev)
    from False have "?t \<noteq> []" by auto
    then have "\<not> isWhiteSpace (hd ?t)" unfolding trimStart_def by (rule hd_dropWhile)
    moreover have "hd ?t = hd (rev ?r)" using False split by (metis hd_append2 rev_is_Nil_conv)
    ultimately show ?thesis using last by (simp add: trimmed_def trim_def)
  qed
qed


lemmas string_eval = js_def trim_def trimStart_def isWhiteSpace_def

section \<open>What a handler does to timers, queue and transmissions\<close>

lemma transmitted_append: "transmitted (xs @ ys) = transmitted xs @ transmitted ys"
  by (induction xs rule: transmitted.induct) simp_all

lemma sendToBackend_transmitted:
  "transmitted (trace (snd (sendToBackend env data w))) = transmitted (trace w) @ [data]"
  by (simp add: sendToBackend_def send_catch_def perform_def Let_def transmitted_append
        split: sum.splits)

lemma upholds_weaken:
  "upholds T Q w \<Longrightarrow> (\<And>t. T t \<Longrightarrow> T' t) \<Longrightarrow> (\<And>d. Q d \<Longrightarrow> Q' d) \<Longrightarrow> upholds T' Q' w"
  by (simp add: upholds_def)

lemma upholds_perform:
  "transmitted [e] = [] \<Longrightarrow> upholds T Q (perform e w) \<longleftrightarrow> upholds T Q w"
  by (simp add: upholds_def perform_def queue_of_def transmitted_append)

lemma send_catch_upholds:
  "upholds T Q w \<Longrightarrow> Q data \<Longrightarrow> upholds T Q (snd (send_catch works data w))"
  by (auto simp add: upholds_def send_catch_def perform_def Let_def queue_of_def
        transmitted_append split: option.splits)

lemma sendToBackend_upholds:
  assumes "upholds T Q w" and "Q data"
  shows "upholds T Q (snd (sendToBackend env data w))"
proof -
  have "upholds T Q (perform (FetchPostIndex data) w)"
    using assms by (auto simp add: upholds_def perform_def queue_of_def transmitted_append)
  then show ?thesis
    using assms(2) by (simp add: sendToBackend_def Let_def send_catch_upholds split: sum.splits)
qed

lemma retry_loop_upholds:
  "upholds T Q w \<Longrightarrow> \<forall>(i, data) \<in> set items. Q data \<Longrightarrow>
   upholds T Q (snd (retry_loop envs items successful w))"
proof (induction items arbitrary: successful w)
  case Nil
  then show ?case by simp
next
  case (Cons item items)
  obtain i data where item: "item = (i, data)" by (cases item)
  obtain r w1 where s: "sendToBackend (envs i) data w = (r, w1)"
    by (cases "sendToBackend (envs i) data w")
  from Cons.prems item have "Q data" by simp
  with Cons.prems(1) have "upholds T Q (snd (sendToBackend (envs i) data w))"
    by (rule sendToBackend_upholds)
  with s have w1: "upholds T Q w1" by simp
  from Cons.prems(2) have rest: "\<forall>(i, data) \<in> set items. Q data" by simp
  show ?case
    using Cons.IH [OF w1 rest] item s by (simp split: sum.splits)
qed

lemma retryFailedRequests_upholds:
  assumes "upholds T Q w"
  shows "upholds T Q (retryFailedRequests envs w)"
proof -
  let ?queue = "queue_of w"
  let ?items = "zip [0..<length ?queue] ?queue"
  let ?w1 = "perform (StorageGet ''failedQueue'') w"
  have w1: "upholds T Q ?w1"
    using assms by (simp add: upholds_perform)
  have items: "\<forall>(i, data) \<in> set ?items. Q data"
    using assms by (auto simp add: upholds_def dest: set_zip_rightD)
  obtain successful w2 where loop: "retry_loop envs ?items [] ?w1 = (successful, w2)"
    by (cases "retry_loop envs ?items [] ?w1")
  from retry_loop_upholds [OF w1 items, of envs "[]"] loop have w2: "upholds T Q w2" by simp
  have remaining: "\<forall>d \<in> set (map snd (filter (\<lambda>(i, item). i \<notin> set successful) ?items)). Q d"
    using items by auto
  have "upholds T Q (perform (StorageSet ''failedQueue'')
          (w2\<lparr>stored_failedQueue :=
                Some (map snd (filter (\<lambda>(i, item). i \<notin> set successful) ?items))\<rparr>))"
    using w2 remaining by (simp add: upholds_def perform_def queue_of_def transmitted_append)
  with w1 loop show ?thesis
    by (simp add: retryFailedRequests_def Let_def queue_of_def)
qed

lemma extractPageContent_result:
  "fst (extractPageContent tabId page w) = Some c \<Longrightarrow> \<exists>d. extractTextContent d = Inr c"
  by (auto simp add: extractPageContent_def Let_def split: injection.splits sum.splits)

lemma timer_callback_upholds:
  assumes "upholds T Q w"
    and "\<And>d c. extractTextContent d = Inr c \<Longrightarrow> content_text c \<noteq> [] \<Longrightarrow> Q (payload tab c)"
  shows "upholds T Q (timer_callback tab page env w)"
proof -
  obtain c w1 where e: "extractPageContent (tab_id tab) page w = (c, w1)"
    by (cases "extractPageContent (tab_id tab) page w")
  then have w1: "w1 = perform (ExecuteScript (tab_id tab)) w"
    by (simp add: extractPageContent_def Let_def)
  have u1: "upholds T Q w1"
    using assms(1) by (simp add: w1 upholds_perform)
  show ?thesis
  proof (cases c)
    case None
    with e u1 show ?thesis by (simp add: timer_callback_def)
  next
    case (Some c')
    with e have "fst (extractPageContent (tab_id tab) page w) = Some c'" by simp
    then obtain d where "extractTextContent d = Inr c'"
      by (blast dest: extractPageContent_result)
    then have "content_text c' \<noteq> [] \<Longrightarrow> Q (payload tab c')" by (rule assms(2))
    with e Some u1 show ?thesis
      by (simp add: timer_callback_def sendToBackend_upholds)
  qed
qed

lemma snd_isBlocklisted: "snd (isBlocklisted RegExp url w) = perform (StorageGet BLOCKLIST_KEY) w"
  by (simp add: isBlocklisted_def loadBlocklist_def Let_def)

lemma processPageVisit_upholds:
  assumes "upholds T Q w"
    and "\<And>url. tab_url tab = Some url \<Longrightarrow> fst (isBlocklisted RegExp url w) = Inr False \<Longrightarrow> T tab"
  shows "upholds T Q (processPageVisit RegExp tab w)"
proof (cases "tab_url tab")
  case None
  with assms(1) show ?thesis by (simp add: processPageVisit_def)
next
  case (Some url)
  let ?r = "fst (isBlocklisted RegExp url w)"
  let ?w1 = "perform (StorageGet BLOCKLIST_KEY) w"
  have u1: "upholds T Q ?w1" using assms(1) by (simp add: upholds_perform)
  have "upholds T Q (perform (SetTimeout 2000) (?w1\<lparr>timers := timers ?w1 @ [tab]\<rparr>))"
    if "?r = Inr False"
  proof -
    from Some that have "T tab" by (rule assms(2))
    with u1 show ?thesis
      by (simp add: upholds_def perform_def queue_of_def transmitted_append)
  qed
  with Some u1 assms(1) show ?thesis
    by (auto simp add: processPageVisit_def split_beta snd_isBlocklisted split: sum.splits)
qed

lemma step_upholds:
  assumes "upholds T Q w"
    and "\<And>tab url. e = PageVisit tab \<Longrightarrow> tab_url tab = Some url \<Longrightarrow>
           fst (isBlocklisted RegExp url w) = Inr False \<Longrightarrow> T tab"
    and "\<And>tab d c. T tab \<Longrightarrow> extractTextContent d = Inr c \<Longrightarrow> content_text c \<noteq> [] \<Longrightarrow>
           Q (payload tab c)"
  shows "upholds T Q (step RegExp e w)"
proof (cases e)
  case (PageVisit tab)
  with assms(1,2) show ?thesis by (simp add: processPageVisit_upholds)
next
  case (TimerFires page env)
  show ?thesis
  proof (cases "timers w")
    case Nil
    with TimerFires assms(1) show ?thesis by simp
  next
    case (Cons tab rest)
    with assms(1) have "T tab" and "upholds T Q (w\<lparr>timers := rest\<rparr>)"
      by (simp_all add: upholds_def queue_of_def)
    with TimerFires Cons assms(3) show ?thesis
      by (simp add: timer_callback_upholds)
  qed
next
  case (RetryInterval envs)
  with assms(1) show ?thesis by (simp add: retryFailedRequests_upholds)
next
  case (BlocklistSaved v)
  with assms(1) show ?thesis
    by (simp add: saveBlocklist_def Let_def upholds_def perform_def queue_of_def
          transmitted_append)
next
  case ExtensionInstalled
  with assms(1) show ?thesis
    by (simp add: onInstalled_def Let_def upholds_def perform_def queue_of_def
          transmitted_append split: option.splits)
qed

section \<open>Runs\<close>

lemma run_snoc: "run RegExp (es @ [e]) w = step RegExp e (run RegExp es w)"
  by (induction es arbitrary: w) simp_all

lemma upholds_fresh: "upholds T Q (fresh\<lparr>stored_blocklist := b\<rparr>)"
  by (simp add: upholds_def fresh_def queue_of_def)

lemma run_captured:
  "upholds (\<lambda>tab. tab_url tab \<noteq> None) captured (run RegExp es (fresh\<lparr>stored_blocklist := b\<rparr>))"
proof (induction es rule: rev_induct)
  case Nil
  show ?case by (simp add: upholds_fresh)
next
  case (snoc e es)
  show ?case
    unfolding run_snoc
    by (rule step_upholds [OF snoc.IH]) (auto simp add: captured_def)
qed

lemma admitted_snoc:
  assumes "admitted RegExp w0 es url"
  shows "admitted RegExp w0 (es @ [e]) url"
proof -
  from assms obtain i tab where i: "i < length es" and "es ! i = PageVisit tab"
    and "tab_url tab = Some url"
    and "fst (isBlocklisted RegExp url (run RegExp (take i es) w0)) = Inr False"
    unfolding admitted_def by blast
  then have "i < length (es @ [e]) \<and> (es @ [e]) ! i = PageVisit tab \<and> tab_url tab = Some url
      \<and> fst (isBlocklisted RegExp url (run RegExp (take i (es @ [e])) w0)) = Inr False"
    by (simp add: nth_append)
  then show ?thesis unfolding admitted_def by blast
qed

lemma admitted_last:
  "tab_url tab = Some url \<Longrightarrow> fst (isBlocklisted RegExp url (run RegExp es w0)) = Inr False \<Longrightarrow>
   admitted RegExp w0 (es @ [PageVisit tab]) url"
  unfolding admitted_def
  by (rule exI [of _ "length es"]) simp

lemma get_prop_url: "get_prop (payload tab c) ''url'' = tab_url tab"
  by (simp add: get_prop_def payload_def split: option.splits)

lemma run_admitted:
  "upholds
     (\<lambda>tab. \<exists>url. tab_url tab = Some url
        \<and> admitted RegExp (fresh\<lparr>stored_blocklist := b\<rparr>) es url)
     (\<lambda>data. \<exists>url. get_prop data ''url'' = Some url
        \<and> admitted RegExp (fresh\<lparr>stored_blocklist := b\<rparr>) es url)
     (run RegExp es (fresh\<lparr>stored_blocklist := b\<rparr>))"
proof (induction es rule: rev_induct)
  case Nil
  show ?case by (simp add: upholds_fresh)
next
  case (snoc e es)
  let ?w0 = "fresh\<lparr>stored_blocklist := b\<rparr>"
  have "upholds (\<lambda>tab. \<exists>url. tab_url tab = Some url \<and> admitted RegExp ?w0 (es @ [e]) url)
     (\<lambda>data. \<exists>url. get_prop data ''url'' = Some url \<and> admitted RegExp ?w0 (es @ [e]) url)
     (run RegExp es ?w0)"
    by (rule upholds_weaken [OF snoc.IH]) (blast intro: admitted_snoc)+
  then show ?case
    unfolding run_snoc
    by (rule step_upholds) (auto simp add: get_prop_url intro: admitted_last)
qed

lemmas world_eval =
  processPageVisit_def timer_callback_def extractPageContent_def
  extractTextContent_def payload_def sendToBackend_def send_try_def send_catch_def
  retryFailedRequests_def saveBlocklist_def onInstalled_def or_else_def BLOCKLIST_KEY_def
  example_tab_def example_document_def example_payload_def backend_down_def backend_up_def
  every_time_def get_prop_def

section \<open>The retry pass\<close>

lemma sendToBackend_throws:
  "isl (fst (sendToBackend env data w)) \<longleftrightarrow>
     isl (send_try (fetch_answer env)) \<and> \<not> storage_works env"
  by (simp add: sendToBackend_def send_catch_def Let_def split: sum.splits)

text \<open>A send that fails, with the storage working, appends the payload to the stored queue.\<close>

lemma sendToBackend_failure_queues:
  "isl (send_try (fetch_answer env)) \<Longrightarrow> storage_works env \<Longrightarrow>
   stored_failedQueue (snd (sendToBackend env data w)) = Some (queue_of w @ [data])"
  by (cases "send_try (fetch_answer env)")
     (simp_all add: sendToBackend_def send_catch_def perform_def Let_def queue_of_def)

lemma retry_loop_successful:
  "fst (retry_loop envs items successful w) =
     successful @ map fst (filter (\<lambda>(i, data).
        \<not> (isl (send_try (fetch_answer (envs i))) \<and> \<not> storage_works (envs i))) items)"
proof (induction items arbitrary: successful w)
  case Nil
  show ?case by simp
next
  case (Cons item items)
  obtain i data where item: "item = (i, data)" by (cases item)
  obtain r w1 where s: "sendToBackend (envs i) data w = (r, w1)"
    by (cases "sendToBackend (envs i) data w")
  have t: "isl r \<longleftrightarrow> isl (send_try (fetch_answer (envs i))) \<and> \<not> storage_works (envs i)"
    using sendToBackend_throws [of "envs i" data w] by (simp add: s)
  show ?case
    by (cases r) (use t in \<open>simp_all add: item s Cons.IH\<close>)
qed

text \<open>
  What a retry pass over a non-empty queue leaves in the queue: the payloads whose send
  failed and whose re-queuing in \<open>sendToBackend\<close> failed as well. A send that merely fails
  makes \<open>sendToBackend\<close> return normally, so the loop takes it for a success.
\<close>

lemma retryFailedRequests_queue:
  assumes "queue_of w \<noteq> []"
  shows "stored_failedQueue (retryFailedRequests envs w) =
     Some (map snd (filter (\<lambda>(i, data).
        isl (send_try (fetch_answer (envs i))) \<and> \<not> storage_works (envs i))
        (zip [0..<length (queue_of w)] (queue_of w))))"
proof -
  let ?items = "zip [0..<length (queue_of w)] (queue_of w)"
  let ?throws = "\<lambda>i. isl (send_try (fetch_answer (envs i))) \<and> \<not> storage_works (envs i)"
  let ?w1 = "perform (StorageGet ''failedQueue'') w"
  have s: "fst (retry_loop envs ?items [] ?w1) = map fst (filter (\<lambda>(i, data). \<not> ?throws i) ?items)"
    by (simp add: retry_loop_successful)
  have m: "i \<notin> set (map fst (filter (\<lambda>(i, data). \<not> ?throws i) ?items)) \<longleftrightarrow> ?throws i"
    if "(i, data) \<in> set ?items" for i data
    using that by force
  have "filter (\<lambda>(i, item). i \<notin> set (fst (retry_loop envs ?items [] ?w1))) ?items
          = filter (\<lambda>(i, data). ?throws i) ?items"
    unfolding s by (rule filter_cong) (use m in auto)
  then show ?thesis
    using assms by (simp add: retryFailedRequests_def Let_def split_beta perform_def queue_of_def)
qed

section \<open>The popup\<close>

lemma searches_append: "searches (xs @ ys) = searches xs @ searches ys"
  by (induction xs rule: searches.induct) simp_all

lemma parseInt_empty: "parseInt [] = None"
  by (simp add: parseInt_def trimStart_def)

lemma performSearch_effects:
  "trim (searchQuery_value p) \<noteq> [] \<Longrightarrow>
   effects (performSearch toFixed4 toLocaleDateString answer p) =
     effects p @
       (if isWellFormed (trim (searchQuery_value p)) then
          [FetchGetSearch (trim (searchQuery_value p))
             (case parseInt (topK_value p) of
                None \<Rightarrow> 5
              | Some n \<Rightarrow> if n = 0 then 5 else n)]
        else [])"
  by (cases answer)
     (simp_all add: performSearch_def search_try_def search_catch_def Let_def)

lemma forEach_append_map:
  "forEach_append create results index children =
     children @ map (\<lambda>(i, result). ResultItem (create result (i + 1))) (enumerate index results)"
  by (induction results arbitrary: index children) simp_all

lemma join_prefix: "prefix x (join sep (x # ys))"
  by (cases ys) simp_all

lemma createResultElement_distance:
  "result_distance result = Some d \<Longrightarrow>
   prefix (js ''Distance: '' @ toFixed4 d)
     (meta_textContent (createResultElement toFixed4 toLocaleDateString result rank))"
  by (simp add: createResultElement_def Let_def join_prefix del: join.simps)

lemma performSearch_results:
  "trim (searchQuery_value p) \<noteq> [] \<Longrightarrow> isWellFormed (trim (searchQuery_value p)) \<Longrightarrow>
   searchResults (performSearch toFixed4 toLocaleDateString (Data (Some results)) p) =
     (if results = [] then [NoResultsDiv]
      else map (\<lambda>(i, result).
                  ResultItem (createResultElement toFixed4 toLocaleDateString result (i + 1)))
             (enumerate 0 results))"
  by (simp add: performSearch_def search_try_def Let_def forEach_append_map)

section \<open>Properties of page visits\<close>

text \<open>
  C10. A tab with no URL (undefined or empty) and a tab whose URL starts with
  \<open>chrome://\<close> or \<open>chrome-extension://\<close> is skipped before anything else happens:
  \<open>processPageVisit\<close> leaves the whole state as it is, whatever blocklist is stored, so it
  reads no storage, sets no timer, extracts nothing and sends nothing, and a run goes on as
  if the visit had not happened.
\<close>

theorem processPageVisit_skips:
  "tab_url tab = None \<or> tab_url tab = Some []
     \<or> (\<exists>url. tab_url tab = Some url
           \<and> (prefix (js ''chrome://'') url \<or> prefix (js ''chrome-extension://'') url)) \<Longrightarrow>
   processPageVisit RegExp tab w = w
   \<and> run RegExp (PageVisit tab # es) w = run RegExp es w"
  by (auto simp add: processPageVisit_def startsWith_prefix)

theorem processPageVisit_skips_witness:
  "processPageVisit literal_RegExp \<lparr>tab_id = 1, tab_url = Some (js ''chrome://extensions/'')\<rparr>
     (fresh\<lparr>stored_blocklist := Some []\<rparr>) = fresh\<lparr>stored_blocklist := Some []\<rparr>"
  using processPageVisit_skips
          [of "\<lparr>tab_id = 1, tab_url = Some (js ''chrome://extensions/'')\<rparr>" literal_RegExp
              "fresh\<lparr>stored_blocklist := Some []\<rparr>" "[]"]
  by (simp add: js_def)

section \<open>Properties of what is transmitted\<close>

lemma processPageVisit_blocked:
  "tab_url tab = Some url \<Longrightarrow> fst (isBlocklisted RegExp url w) = Inr True \<Longrightarrow>
   timers (processPageVisit RegExp tab w) = timers w
   \<and> transmitted (trace (processPageVisit RegExp tab w)) = transmitted (trace w)
   \<and> stored_failedQueue (processPageVisit RegExp tab w) = stored_failedQueue w"
  by (simp add: processPageVisit_def split_beta snd_isBlocklisted perform_def transmitted_append)

lemma timer_callback_transmitted:
  "transmitted (trace (timer_callback tab page env w)) =
     transmitted (trace w) @
       (case fst (extractPageContent (tab_id tab) page w) of
          None \<Rightarrow> []
        | Some c \<Rightarrow> if content_text c \<noteq> [] then [payload tab c] else [])"
  by (simp add: timer_callback_def split_beta sendToBackend_transmitted extractPageContent_def
        Let_def perform_def transmitted_append split: option.splits)

lemma extractPageContent_Injected:
  "fst (extractPageContent tabId (Injected d) w) =
     (case extractTextContent d of Inl e \<Rightarrow> None | Inr c \<Rightarrow> Some c)"
  by (simp add: extractPageContent_def Let_def)

lemma extractTextContent_fields:
  "extractTextContent d = Inr c \<Longrightarrow>
     content_timestamp c = Date_toISOString d \<and> trimmed (content_text c)
     \<and> trimmed (content_title c) \<and> trimmed (content_description c)"
  by (auto simp add: extractTextContent_def Let_def trimmed_trim split: option.splits)

lemma content_script_trimmed:
  "content_script_extractTextContent d meta_keywords = Some c \<Longrightarrow>
     trimmed (script_text c) \<and> trimmed (script_title c) \<and> trimmed (script_description c)"
  by (auto simp add: content_script_extractTextContent_def Let_def trimmed_trim
        split: option.splits)

lemma captured_fields:
  assumes "captured data"
  shows "map fst data = [''url'', ''title'', ''description'', ''text'', ''timestamp'']"
    and "\<exists>text title description.
           get_prop data ''text'' = Some text \<and> text \<noteq> [] \<and> trimmed text
           \<and> get_prop data ''title'' = Some title \<and> trimmed title
           \<and> get_prop data ''description'' = Some description \<and> trimmed description"
proof -
  from assms obtain tab url d c where tab: "tab_url tab = Some url"
    and c: "extractTextContent d = Inr c" and nonempty: "content_text c \<noteq> []"
    and data: "data = payload tab c"
    unfolding captured_def by blast
  show "map fst data = [''url'', ''title'', ''description'', ''text'', ''timestamp'']"
    by (simp add: data payload_def tab)
  from extractTextContent_fields [OF c] nonempty
  show "\<exists>text title description.
           get_prop data ''text'' = Some text \<and> text \<noteq> [] \<and> trimmed text
           \<and> get_prop data ''title'' = Some title \<and> trimmed title
           \<and> get_prop data ''description'' = Some description \<and> trimmed description"
    by (simp add: data payload_def tab get_prop_def)
qed

text \<open>
  C1, as the code has it. The blocklist is consulted once, when \<open>processPageVisit\<close> runs:
  a visit whose URL the stored blocklist matches at that moment sets no timer, transmits
  nothing and queues nothing; and in every run from a state with nothing pending, every
  payload transmitted to the indexing endpoint, on its first send and on every re-send from
  the failed-request queue, carries the URL of a visit of that run which the blocklist
  stored at the moment of that visit did not match.
\<close>

theorem transmitted_urls_were_admitted:
  "(tab_url tab = Some url \<longrightarrow> fst (isBlocklisted RegExp url w) = Inr True \<longrightarrow>
      timers (processPageVisit RegExp tab w) = timers w
      \<and> transmitted (trace (processPageVisit RegExp tab w)) = transmitted (trace w)
      \<and> stored_failedQueue (processPageVisit RegExp tab w) = stored_failedQueue w)
   \<and> (\<forall>data \<in> set (transmitted (trace (run RegExp es (fresh\<lparr>stored_blocklist := b\<rparr>)))).
        \<exists>url. get_prop data ''url'' = Some url
          \<and> admitted RegExp (fresh\<lparr>stored_blocklist := b\<rparr>) es url)"
  using run_admitted [of RegExp b es]
  by (simp add: processPageVisit_blocked upholds_def)

theorem transmitted_urls_were_admitted_witness:
  "transmitted (trace (run literal_RegExp
       [PageVisit example_tab, TimerFires (Injected example_document) backend_down,
        BlocklistSaved (js ''a.example''), RetryInterval (every_time backend_up)]
       (fresh\<lparr>stored_blocklist := Some []\<rparr>))) = [example_payload, example_payload]
   \<and> admitted literal_RegExp (fresh\<lparr>stored_blocklist := Some []\<rparr>)
       [PageVisit example_tab, TimerFires (Injected example_document) backend_down,
        BlocklistSaved (js ''a.example''), RetryInterval (every_time backend_up)]
       (js ''http://a.example/'')
   \<and> timers (processPageVisit literal_RegExp example_tab
        (fresh\<lparr>stored_blocklist := Some [js ''a.example'']\<rparr>)) = []"
  using transmitted_urls_were_admitted
     [of example_tab "js ''http://a.example/''" literal_RegExp
         "fresh\<lparr>stored_blocklist := Some [js ''a.example'']\<rparr>"
         "[PageVisit example_tab, TimerFires (Injected example_document) backend_down,
           BlocklistSaved (js ''a.example''), RetryInterval (every_time backend_up)]"
         "Some []"]
  by (simp add: world_eval blocklist_eval string_eval)

text \<open>
  C1, as it is stated, fails. A page is visited while nothing is blocklisted and its send
  fails, so the payload is queued; the user then blocklists \<open>a.example\<close>; the next retry
  pass transmits the payload again, at a moment when the stored blocklist matches its URL.
\<close>

theorem blocklisted_url_sent_again:
  "fst (isBlocklisted literal_RegExp (js ''http://a.example/'')
         (run literal_RegExp
            [PageVisit example_tab, TimerFires (Injected example_document) backend_down,
             BlocklistSaved (js ''a.example'')] fresh)) = Inr True
   \<and> transmitted (trace (run literal_RegExp
            [PageVisit example_tab, TimerFires (Injected example_document) backend_down,
             BlocklistSaved (js ''a.example'')] fresh)) = [example_payload]
   \<and> transmitted (trace (step literal_RegExp (RetryInterval (every_time backend_up))
         (run literal_RegExp
            [PageVisit example_tab, TimerFires (Injected example_document) backend_down,
             BlocklistSaved (js ''a.example'')] fresh))) = [example_payload, example_payload]
   \<and> get_prop example_payload ''url'' = Some (js ''http://a.example/'')"
  by (simp add: world_eval blocklist_eval string_eval)

text \<open>
  C3. When the timeout callback of a visited tab extracts content with text, the object it
  posts to \<open>/index\<close> has exactly the keys url, title, description, text and timestamp, in
  that order: the tab's URL, the title, description and text of the extracted content, and
  the \<open>toISOString\<close> value taken when the content was extracted. And in every run, every
  transmitted object, re-sends included, has exactly those five keys.
\<close>

theorem payload_five_fields:
  "(tab_url tab = Some url \<longrightarrow> extractTextContent d = Inr c \<longrightarrow> content_text c \<noteq> [] \<longrightarrow>
      transmitted (trace (timer_callback tab (Injected d) env w)) =
        transmitted (trace w) @
          [[(''url'', url), (''title'', content_title c),
            (''description'', content_description c), (''text'', content_text c),
            (''timestamp'', Date_toISOString d)]])
   \<and> (\<forall>data \<in> set (transmitted (trace (run RegExp es (fresh\<lparr>stored_blocklist := b\<rparr>)))).
        map fst data = [''url'', ''title'', ''description'', ''text'', ''timestamp''])"
proof (intro conjI impI ballI)
  assume "tab_url tab = Some url" and c: "extractTextContent d = Inr c"
    and "content_text c \<noteq> []"
  then show "transmitted (trace (timer_callback tab (Injected d) env w)) =
        transmitted (trace w) @
          [[(''url'', url), (''title'', content_title c),
            (''description'', content_description c), (''text'', content_text c),
            (''timestamp'', Date_toISOString d)]]"
    using extractTextContent_fields [OF c]
    by (simp add: timer_callback_transmitted extractPageContent_Injected payload_def)
next
  fix data
  assume "data \<in> set (transmitted (trace (run RegExp es (fresh\<lparr>stored_blocklist := b\<rparr>))))"
  with run_captured [of RegExp es b] have "captured data" by (simp add: upholds_def)
  then show "map fst data = [''url'', ''title'', ''description'', ''text'', ''timestamp'']"
    by (rule captured_fields)
qed

theorem payload_five_fields_witness:
  "transmitted (trace (timer_callback example_tab (Injected example_document) backend_up fresh))
     = [example_payload]
   \<and> transmitted (trace (run literal_RegExp
        [PageVisit example_tab, TimerFires (Injected example_document) backend_up]
        (fresh\<lparr>stored_blocklist := Some []\<rparr>))) = [example_payload]
   \<and> map fst example_payload = [''url'', ''title'', ''description'', ''text'', ''timestamp'']"
  using payload_five_fields
     [of example_tab "js ''http://a.example/''" example_document
         "\<lparr>content_text = js ''hello world'', content_title = js ''T'',
           content_description = [], content_url = js ''http://a.example/'',
           content_timestamp = js ''2024-01-01T00:00:00.000Z''\<rparr>"
         backend_up fresh literal_RegExp
         "[PageVisit example_tab, TimerFires (Injected example_document) backend_up]" "Some []"]
  by (simp add: world_eval blocklist_eval string_eval)




section \<open>Properties of the retry queue\<close>

text \<open>
  C5. The queue holds one payload and the backend cannot be reached. The retry pass sends
  the payload once more, the send fails, and the pass ends by storing an empty queue: the
  payload is gone although its re-send did not succeed.
\<close>

theorem retryFailedRequests_loses_failed_payload:
  "stored_failedQueue
     (retryFailedRequests (every_time backend_down)
        (fresh\<lparr>stored_failedQueue := Some [example_payload]\<rparr>)) = Some []
   \<and> transmitted (trace
     (retryFailedRequests (every_time backend_down)
        (fresh\<lparr>stored_failedQueue := Some [example_payload]\<rparr>))) = [example_payload]"
  by (simp add: world_eval blocklist_eval)

section \<open>Properties of the search\<close>

text \<open>
  C4. When the top_k input is empty or does not parse to a number, every search request
  the invocation issues carries top_k = 5. It issues exactly one, unless the query is
  empty after trimming or \<open>encodeURIComponent\<close> rejects it, and then it issues none.
\<close>

theorem performSearch_default_top_k:
  "topK_value p = [] \<or> parseInt (topK_value p) = None \<Longrightarrow>
   searches (effects (performSearch toFixed4 toLocaleDateString answer p)) =
     searches (effects p) @
       (if trim (searchQuery_value p) = [] \<or> \<not> isWellFormed (trim (searchQuery_value p))
        then [] else [(trim (searchQuery_value p), 5)])"
proof (cases "trim (searchQuery_value p) = []")
  case True
  then show ?thesis by (simp add: performSearch_def Let_def searches_append)
next
  case False
  assume "topK_value p = [] \<or> parseInt (topK_value p) = None"
  then have "parseInt (topK_value p) = None" by (auto simp add: parseInt_empty)
  with False show ?thesis by (simp add: performSearch_effects searches_append)
qed

theorem performSearch_default_top_k_witness:
  "searches (effects (performSearch decimal id (FetchRejects [])
      (popup0\<lparr>searchQuery_value := js '' cats '', topK_value := js ''abc''\<rparr>)))
     = [(js ''cats'', 5)]
   \<and> searches (effects (performSearch decimal id (FetchRejects [])
      (popup0\<lparr>searchQuery_value := [0xD800], topK_value := []\<rparr>))) = []"
  using performSearch_default_top_k
     [of "popup0\<lparr>searchQuery_value := js '' cats '', topK_value := js ''abc''\<rparr>"
         decimal id "FetchRejects []"]
    performSearch_default_top_k
     [of "popup0\<lparr>searchQuery_value := [0xD800], topK_value := []\<rparr>"
         decimal id "FetchRejects []"]
  by (simp add: string_eval popup0_def parseInt_def digit_def isLeadingSurrogate_def
        isTrailingSurrogate_def)

text \<open>
  C6. A search whose query is empty after trimming is rejected at once: no search request
  is issued, the status line shows an error, and the result list is left as it was.
\<close>

theorem performSearch_empty_query:
  "trim (searchQuery_value p) = [] \<Longrightarrow>
   searches (effects (performSearch toFixed4 toLocaleDateString answer p)) = searches (effects p)
   \<and> searchStatus_textContent (performSearch toFixed4 toLocaleDateString answer p) =
       js ''Please enter a search query''
   \<and> searchStatus_className (performSearch toFixed4 toLocaleDateString answer p) =
       js ''status error''
   \<and> searchResults (performSearch toFixed4 toLocaleDateString answer p) = searchResults p"
  by (simp add: performSearch_def Let_def searches_append)

theorem performSearch_empty_query_witness:
  "searches (effects (performSearch decimal id (Data (Some [result1]))
      (popup0\<lparr>searchQuery_value := js ''   '', topK_value := js ''3''\<rparr>))) = []
   \<and> searchResults (performSearch decimal id (Data (Some [result1]))
      (popup0\<lparr>searchQuery_value := js ''   '', topK_value := js ''3''\<rparr>)) = []"
  using performSearch_empty_query
     [of "popup0\<lparr>searchQuery_value := js ''   '', topK_value := js ''3''\<rparr>"
         decimal id "Data (Some [result1])"]
  by (simp add: string_eval popup0_def)

text \<open>
  C7. The results of a search response (there is one only if the request was issued: the
  query is not empty after trimming and \<open>encodeURIComponent\<close> accepts it) are shown in the
  order of the response's \<open>results\<close> array, one item per result and nothing re-ordered:
  the item at each position
  is built from the result at that position, shows and opens that result's URL, and its
  meta line starts with that result's own distance, as \<open>toFixed(4)\<close> prints it.
\<close>

theorem performSearch_keeps_order:
  assumes "trim (searchQuery_value p) \<noteq> []" and "isWellFormed (trim (searchQuery_value p))"
    and "results \<noteq> []"
  shows "searchResults (performSearch toFixed4 toLocaleDateString (Data (Some results)) p) =
           map (\<lambda>(i, result).
                  ResultItem (createResultElement toFixed4 toLocaleDateString result (i + 1)))
             (enumerate 0 results)
         \<and> (\<forall>i < length results. \<exists>item.
               searchResults (performSearch toFixed4 toLocaleDateString (Data (Some results)) p) ! i
                 = ResultItem item
               \<and> url_textContent item = result_url (results ! i)
               \<and> click_opens item = result_url (results ! i)
               \<and> (\<forall>d. result_distance (results ! i) = Some d \<longrightarrow>
                      prefix (js ''Distance: '' @ toFixed4 d) (meta_textContent item)))"
proof (intro conjI allI impI)
  show "searchResults (performSearch toFixed4 toLocaleDateString (Data (Some results)) p) =
           map (\<lambda>(i, result).
                  ResultItem (createResultElement toFixed4 toLocaleDateString result (i + 1)))
             (enumerate 0 results)"
    using assms by (simp add: performSearch_results)
next
  fix i assume i: "i < length results"
  let ?item = "createResultElement toFixed4 toLocaleDateString (results ! i) (i + 1)"
  have "searchResults (performSearch toFixed4 toLocaleDateString (Data (Some results)) p) ! i
          = ResultItem ?item"
    using assms i by (simp add: performSearch_results nth_enumerate_eq)
  moreover have "url_textContent ?item = result_url (results ! i)"
    and "click_opens ?item = result_url (results ! i)"
    by (simp_all add: createResultElement_def Let_def)
  moreover have "\<forall>d. result_distance (results ! i) = Some d \<longrightarrow>
                      prefix (js ''Distance: '' @ toFixed4 d) (meta_textContent ?item)"
    by (simp add: createResultElement_distance)
  ultimately show "\<exists>item.
               searchResults (performSearch toFixed4 toLocaleDateString (Data (Some results)) p) ! i
                 = ResultItem item
               \<and> url_textContent item = result_url (results ! i)
               \<and> click_opens item = result_url (results ! i)
               \<and> (\<forall>d. result_distance (results ! i) = Some d \<longrightarrow>
                      prefix (js ''Distance: '' @ toFixed4 d) (meta_textContent item))"
    by blast
qed

theorem performSearch_keeps_order_witness:
  "map (\<lambda>n. case n of
               ResultItem item \<Rightarrow> (url_textContent item, meta_textContent item)
             | _ \<Rightarrow> ([], []))
     (searchResults (performSearch decimal id (Data (Some [result1, result2]))
        (popup0\<lparr>searchQuery_value := js ''cats''\<rparr>)))
   = [(js ''http://a.example/'', js ''Distance: 3'' @ [0x20, 0x2022, 0x20] @ js ''Chunk 1/2''),
      (js ''http://b.example/'', js ''Distance: 1'')]"
  using performSearch_keeps_order
     [of "popup0\<lparr>searchQuery_value := js ''cats''\<rparr>" "[result1, result2]" decimal id]
  by (simp add: string_eval popup0_def result1_def result2_def createResultElement_def Let_def
        enumerate_eq_zip number_toString_def decimal.simps or_else_def isLeadingSurrogate_def
        isTrailingSurrogate_def)

end
